theory Spec2Isabelle
  imports Main
begin

section \<open>Values of the wallet example\<close>

text \<open>
  The program under verification is \<^verbatim>\<open>src/src/index.ts\<close> together with the
  quick-start file \<^verbatim>\<open>src/unnamed/part_000\<close>. Both are clients of the wallet
  SDK (\<^verbatim>\<open>DynamicEvmWalletClient\<close>) and of a chain read client; the SDK and the
  chain client are not part of the repository and enter the model as the parameter
  \<open>ext\<close> below.

  A JavaScript \<^verbatim>\<open>throw\<close> can carry any value. The handlers of the source only ask
  \<^verbatim>\<open>error instanceof Error\<close> and read \<^verbatim>\<open>error.message\<close>, so a thrown value is
  either an error object (with the name of its class and its message) or something else.
\<close>

datatype thrown = ErrorObj (errName: string) (errMessage: string) | NonError string

text \<open>\<^verbatim>\<open>error instanceof Error ? error.message : d\<close>\<close>

definition messageOr :: "string \<Rightarrow> thrown \<Rightarrow> string" where
  "messageOr d error = (case error of ErrorObj _ m \<Rightarrow> m | NonError _ \<Rightarrow> d)"

text \<open>\<^verbatim>\<open>new Error(m)\<close>: an error object of the base class.\<close>

definition newError :: "string \<Rightarrow> thrown" where
  "newError m = ErrorObj ''Error'' m"

text \<open>
  The enum \<^verbatim>\<open>ThresholdSignatureScheme\<close> is declared by the SDK; the source names
  only its member \<^verbatim>\<open>TWO_OF_TWO\<close>.
\<close>

datatype ThresholdSignatureScheme = TWO_OF_TWO | OtherScheme string

record WalletInfo =
  accountAddress :: string
  walletId :: string
  publicKeyHex :: string

text \<open>The object the SDK returns from \<^verbatim>\<open>createWalletAccount\<close>; the source reads three fields of it.\<close>

record evm_wallet =
  ew_accountAddress :: string
  ew_walletId :: string
  ew_publicKeyHex :: string

text \<open>The argument objects the source builds for the SDK and the chain client.\<close>

record client_cfg =
  cfg_environmentId :: "string option"
  cfg_authToken :: "string option"

record create_params =
  cp_thresholdSignatureScheme :: ThresholdSignatureScheme
  cp_password :: string
  cp_backUpToClientShareService :: bool

record sign_params =
  sp_message :: string
  sp_accountAddress :: string
  sp_password :: string

record verify_params =
  vp_accountAddress :: string
  vp_message :: string
  vp_signature :: string

record viem_cfg =
  vc_chain :: string
  vc_rpcUrl :: string

record tx_request =
  tx_to :: string
  tx_value :: int
  tx_chain :: string
  tx_account :: string

record prepared_tx =
  ptx_to :: "string option"
  ptx_value :: "int option"
  ptx_gas :: "int option"
  ptx_gasPrice :: "int option"

section \<open>The collaborators, as a parameter\<close>

text \<open>
  \<open>'c\<close> is the SDK's client object, \<open>'p\<close> the viem public client, \<open>'w\<close> everything the
  SDK and its services hold (sessions, key shares, accounts, the clock), \<open>'k\<close> the state
  of the chain as the RPC endpoint serves it. An SDK operation may change \<open>'w\<close>; the
  chain operations are reads of \<open>'k\<close>. \<open>createWalletAccount\<close> also yields the errors
  it handed to the \<^verbatim>\<open>onError\<close> callback while it ran. \<open>importModule\<close> is the dynamic
  \<^verbatim>\<open>import(...)\<close>, which fails when the module cannot be loaded.
\<close>

record ('c, 'p, 'w, 'k) externals =
  DYNAMIC_ENVIRONMENT_ID :: "string option"
  DYNAMIC_AUTH_TOKEN :: "string option"
  newDynamicEvmWalletClient :: "client_cfg \<Rightarrow> 'w \<Rightarrow> (thrown + 'c) \<times> 'w"
  authenticateApiToken :: "'c \<Rightarrow> string option \<Rightarrow> 'w \<Rightarrow> (thrown + unit) \<times> 'w"
  createWalletAccount :: "'c \<Rightarrow> create_params \<Rightarrow> 'w \<Rightarrow> (thrown list \<times> (thrown + evm_wallet)) \<times> 'w"
  sdkSignMessage :: "'c \<Rightarrow> sign_params \<Rightarrow> 'w \<Rightarrow> (thrown + string) \<times> 'w"
  verifyMessageSignature :: "'c \<Rightarrow> verify_params \<Rightarrow> 'w \<Rightarrow> (thrown + bool) \<times> 'w"
  toISOString :: "'w \<Rightarrow> string"
  importModule :: "string \<Rightarrow> thrown option"
  createViemPublicClient :: "'c \<Rightarrow> viem_cfg \<Rightarrow> thrown + 'p"
  getBalance :: "'p \<Rightarrow> string \<Rightarrow> 'k \<Rightarrow> thrown + int"
  prepareTransactionRequest :: "'p \<Rightarrow> tx_request \<Rightarrow> 'k \<Rightarrow> thrown + prepared_tx"
  parseEther :: "string \<Rightarrow> int"

text \<open>Every call that leaves the program is recorded, in order.\<close>

datatype 'c call =
    NewClient client_cfg
  | AuthenticateApiToken 'c "string option"
  | CreateWalletAccount 'c create_params
  | SignMessage 'c sign_params
  | VerifyMessageSignature 'c verify_params
  | ImportModule string
  | CreateViemPublicClient 'c viem_cfg
  | GetBalance string
  | PrepareTransactionRequest tx_request

text \<open>
  What the program writes to the console. The pictographs that open the source's
  messages are left out; \<open>WeiAsEth b\<close> stands for the text of
  \<^verbatim>\<open>Number(b) / 1e18\<close>.
\<close>

datatype console_arg =
    Str string
  | Thrown thrown
  | Num int
  | WeiAsEth int
  | Wallet WalletInfo
  | Tx "string option" "int option" "int option" "int option"

datatype console_line = ConsoleLog "console_arg list" | ConsoleError "console_arg list"

record ('c, 'w, 'k) st =
  world :: 'w
  chain :: 'k
  calls :: "'c call list"
  console :: "console_line list"

section \<open>Asynchronous functions as state transformers with errors\<close>

type_synonym ('a, 's) prog = "'s \<Rightarrow> (thrown + 'a) \<times> 's"

definition ret :: "'a \<Rightarrow> ('a, 's) prog" where
  "ret v s = (Inr v, s)"

definition throw :: "thrown \<Rightarrow> ('a, 's) prog" where
  "throw e s = (Inl e, s)"

text \<open>\<^verbatim>\<open>const v = await m; f(v)\<close>: a rejection of \<open>m\<close> skips \<open>f\<close>.\<close>

definition andThen :: "('a, 's) prog \<Rightarrow> ('a \<Rightarrow> ('b, 's) prog) \<Rightarrow> ('b, 's) prog" where
  "andThen m f s = (case m s of (Inl e, s') \<Rightarrow> (Inl e, s') | (Inr v, s') \<Rightarrow> f v s')"

text \<open>\<^verbatim>\<open>try { m } catch (error) { h(error) }\<close>\<close>

definition tryCatch :: "('a, 's) prog \<Rightarrow> (thrown \<Rightarrow> ('a, 's) prog) \<Rightarrow> ('a, 's) prog" where
  "tryCatch m h s = (case m s of (Inl e, s') \<Rightarrow> h e s' | (Inr v, s') \<Rightarrow> (Inr v, s'))"

definition consoleLog :: "console_arg list \<Rightarrow> (unit, ('c, 'w, 'k) st) prog" where
  "consoleLog args s = (Inr (), s\<lparr>console := console s @ [ConsoleLog args]\<rparr>)"

definition consoleError :: "console_arg list \<Rightarrow> (unit, ('c, 'w, 'k) st) prog" where
  "consoleError args s = (Inr (), s\<lparr>console := console s @ [ConsoleError args]\<rparr>)"

text \<open>A call of an SDK operation, of a chain read, and of an operation without state.\<close>

definition callWorld :: "'c call \<Rightarrow> ('w \<Rightarrow> (thrown + 'a) \<times> 'w) \<Rightarrow> ('a, ('c, 'w, 'k) st) prog" where
  "callWorld c op s =
     (case op (world s) of (r, w') \<Rightarrow> (r, s\<lparr>world := w', calls := calls s @ [c]\<rparr>))"

definition callChain :: "'c call \<Rightarrow> ('k \<Rightarrow> thrown + 'a) \<Rightarrow> ('a, ('c, 'w, 'k) st) prog" where
  "callChain c op s = (op (chain s), s\<lparr>calls := calls s @ [c]\<rparr>)"

definition callPure :: "'c call \<Rightarrow> thrown + 'a \<Rightarrow> ('a, ('c, 'w, 'k) st) prog" where
  "callPure c r s = (r, s\<lparr>calls := calls s @ [c]\<rparr>)"

definition awaitImport :: "('c, 'p, 'w, 'k) externals \<Rightarrow> string \<Rightarrow> (unit, ('c, 'w, 'k) st) prog" where
  "awaitImport ext name =
     callPure (ImportModule name) (case importModule ext name of Some e \<Rightarrow> Inl e | None \<Rightarrow> Inr ())"

text \<open>\<^verbatim>\<open>m; n\<close>\<close>

definition seq :: "(unit, 's) prog \<Rightarrow> ('b, 's) prog \<Rightarrow> ('b, 's) prog" where
  "seq m n = andThen m (\<lambda>_. n)"

text \<open>
  \<^verbatim>\<open>await evmClient.createWalletAccount({..., onError})\<close>: the callback runs once for
  each error the SDK hands to it, then the call returns or throws.
\<close>

definition awaitCreateWalletAccount ::
  "('c, 'p, 'w, 'k) externals \<Rightarrow> 'c \<Rightarrow> create_params \<Rightarrow>
   (thrown \<Rightarrow> (unit, ('c, 'w, 'k) st) prog) \<Rightarrow> (evm_wallet, ('c, 'w, 'k) st) prog" where
  "awaitCreateWalletAccount ext client params onError s =
     (case createWalletAccount ext client params (world s) of
        ((reported, r), w') \<Rightarrow>
          (r, foldl (\<lambda>s' e. snd (onError e s'))
                (s\<lparr>world := w', calls := calls s @ [CreateWalletAccount client params]\<rparr>) reported))"

text \<open>\<^verbatim>\<open>new Date().toISOString()\<close>\<close>

definition nowISOString :: "('c, 'p, 'w, 'k) externals \<Rightarrow> (string, ('c, 'w, 'k) st) prog" where
  "nowISOString ext s = (Inr (toISOString ext (world s)), s)"

section \<open>src/src/index.ts\<close>

definition base :: string where
  "base = ''base''"

definition baseRpcUrl :: string where
  "baseRpcUrl = ''https://mainnet.base.org''"

definition authenticatedEvmClient :: "('c, 'p, 'w, 'k) externals \<Rightarrow> ('c, ('c, 'w, 'k) st) prog" where
  "authenticatedEvmClient ext =
     (let cfg = \<lparr>cfg_environmentId = DYNAMIC_ENVIRONMENT_ID ext, cfg_authToken = None\<rparr> in
      andThen (callWorld (NewClient cfg) (newDynamicEvmWalletClient ext cfg)) (\<lambda>client.
      andThen (callWorld (AuthenticateApiToken client (DYNAMIC_AUTH_TOKEN ext))
                 (authenticateApiToken ext client (DYNAMIC_AUTH_TOKEN ext))) (\<lambda>_.
      ret client)))"

text \<open>
  \<^verbatim>\<open>password || "your-secure-password"\<close>: the left operand is taken unless it is
  falsy, and of the values of \<^verbatim>\<open>password?: string\<close> the falsy ones are
  \<^verbatim>\<open>undefined\<close> and the empty string.
\<close>

definition passwordOrDefault :: "string option \<Rightarrow> string" where
  "passwordOrDefault password =
     (case password of
        None \<Rightarrow> ''your-secure-password''
      | Some p \<Rightarrow> if p = [] then ''your-secure-password'' else p)"

definition createNewWallet ::
  "('c, 'p, 'w, 'k) externals \<Rightarrow> string option \<Rightarrow> (WalletInfo, ('c, 'w, 'k) st) prog" where
  "createNewWallet ext password =
     tryCatch
       (andThen (authenticatedEvmClient ext) (\<lambda>evmClient.
        andThen (awaitCreateWalletAccount ext evmClient
                   \<lparr>cp_thresholdSignatureScheme = TWO_OF_TWO,
                    cp_password = passwordOrDefault password,
                    cp_backUpToClientShareService = True\<rparr>
                   (\<lambda>error. consoleError [Str ''EVM wallet creation error:'', Thrown error])) (\<lambda>evmWallet.
        let walletInfo = \<lparr>accountAddress = ew_accountAddress evmWallet,
                          walletId = ew_walletId evmWallet,
                          publicKeyHex = ew_publicKeyHex evmWallet\<rparr> in
        seq (consoleLog [Str ''New wallet created successfully!''])
       (seq (consoleLog [Str ''Address:'', Str (accountAddress walletInfo)])
       (seq (consoleLog [Str ''Wallet ID:'', Str (walletId walletInfo)])
       (seq (consoleLog [Str ''Public Key:'', Str (publicKeyHex walletInfo)])
       (ret walletInfo)))))))
       (\<lambda>error. seq (consoleError [Str ''Wallet creation failed:'', Thrown error]) (throw error))"

definition checkWalletExists ::
  "('c, 'p, 'w, 'k) externals \<Rightarrow> 'c \<Rightarrow> string \<Rightarrow> (unit, ('c, 'w, 'k) st) prog" where
  "checkWalletExists ext evmClient walletAddress =
     tryCatch
       (seq (awaitImport ext ''viem'')
       (seq (awaitImport ext ''viem/chains'')
       (let cfg = \<lparr>vc_chain = base, vc_rpcUrl = baseRpcUrl\<rparr> in
        andThen (callPure (CreateViemPublicClient evmClient cfg)
                   (createViemPublicClient ext evmClient cfg)) (\<lambda>publicClient.
        andThen (callChain (GetBalance walletAddress)
                   (getBalance ext publicClient walletAddress)) (\<lambda>_.
        ret ())))))
       (\<lambda>error. throw (newError (''Wallet verification failed: '' @ messageOr ''Unknown error'' error)))"

definition initializeExistingWallet ::
  "('c, 'p, 'w, 'k) externals \<Rightarrow> string \<Rightarrow> ('c \<times> string, ('c, 'w, 'k) st) prog" where
  "initializeExistingWallet ext walletAddress =
     tryCatch
       (andThen (authenticatedEvmClient ext) (\<lambda>evmClient.
        seq (consoleLog [Str ''Initializing existing wallet:'', Str walletAddress])
       (seq (checkWalletExists ext evmClient walletAddress)
       (seq (consoleLog [Str ''Wallet initialized successfully!''])
       (ret (evmClient, walletAddress))))))
       (\<lambda>error. seq (consoleError [Str ''Failed to initialize wallet:'', Thrown error]) (throw error))"

definition checkBalance ::
  "('c, 'p, 'w, 'k) externals \<Rightarrow> 'c \<Rightarrow> string \<Rightarrow> (unit, ('c, 'w, 'k) st) prog" where
  "checkBalance ext evmClient walletAddress =
     tryCatch
       (seq (awaitImport ext ''viem'')
       (seq (awaitImport ext ''viem/chains'')
       (let cfg = \<lparr>vc_chain = base, vc_rpcUrl = baseRpcUrl\<rparr> in
        andThen (callPure (CreateViemPublicClient evmClient cfg)
                   (createViemPublicClient ext evmClient cfg)) (\<lambda>publicClient.
        andThen (callChain (GetBalance walletAddress)
                   (getBalance ext publicClient walletAddress)) (\<lambda>balance.
        seq (consoleLog [Str ''Balance: '', Num balance, Str '' wei''])
            (consoleLog [Str ''Balance in ETH: '', WeiAsEth balance]))))))
       (\<lambda>error. consoleError [Str ''Balance check failed:'', Str (messageOr ''Unknown error'' error)])"

definition signMessage ::
  "('c, 'p, 'w, 'k) externals \<Rightarrow> 'c \<Rightarrow> string \<Rightarrow> string \<Rightarrow> (unit, ('c, 'w, 'k) st) prog" where
  "signMessage ext evmClient walletAddress password =
     tryCatch
       (andThen (nowISOString ext) (\<lambda>now.
        let message = ''Hello from wallet '' @ walletAddress @ '' at '' @ now;
            signReq = \<lparr>sp_message = message, sp_accountAddress = walletAddress,
                       sp_password = password\<rparr> in
        andThen (callWorld (SignMessage evmClient signReq)
                   (sdkSignMessage ext evmClient signReq)) (\<lambda>signature.
        seq (consoleLog [Str ''Message signed:'', Str message])
       (seq (consoleLog [Str ''Signature:'', Str signature])
       (let verifyReq = \<lparr>vp_accountAddress = walletAddress, vp_message = message,
                          vp_signature = signature\<rparr> in
        andThen (callWorld (VerifyMessageSignature evmClient verifyReq)
                   (verifyMessageSignature ext evmClient verifyReq)) (\<lambda>isValid.
        consoleLog [Str ''Signature verification:'',
                    Str (if isValid then ''Valid'' else ''Invalid'')]))))))
       (\<lambda>error. consoleError [Str ''Message signing failed:'', Str (messageOr ''Unknown error'' error)])"

definition nullAddress :: string where
  "nullAddress = ''0x0000000000000000000000000000000000000000''"

definition prepareTransaction ::
  "('c, 'p, 'w, 'k) externals \<Rightarrow> 'c \<Rightarrow> string \<Rightarrow> (unit, ('c, 'w, 'k) st) prog" where
  "prepareTransaction ext evmClient walletAddress =
     tryCatch
       (seq (awaitImport ext ''viem'')
       (seq (awaitImport ext ''viem/chains'')
       (seq (awaitImport ext ''viem/utils'')
       (let cfg = \<lparr>vc_chain = base, vc_rpcUrl = baseRpcUrl\<rparr> in
        andThen (callPure (CreateViemPublicClient evmClient cfg)
                   (createViemPublicClient ext evmClient cfg)) (\<lambda>publicClient.
        let req = \<lparr>tx_to = nullAddress, tx_value = parseEther ext ''0.001'',
                   tx_chain = base, tx_account = walletAddress\<rparr> in
        andThen (callChain (PrepareTransactionRequest req)
                   (prepareTransactionRequest ext publicClient req)) (\<lambda>preparedTx.
        seq (consoleLog [Str ''Transaction prepared:'',
                         Tx (ptx_to preparedTx) (ptx_value preparedTx)
                            (ptx_gas preparedTx) (ptx_gasPrice preparedTx)])
            (consoleLog [Str ''Note: Transaction not sent - this is just preparation demo''])))))))
       (\<lambda>error. consoleError [Str ''Transaction preparation failed:'',
                               Str (messageOr ''Unknown error'' error)])"

definition performWalletOperations ::
  "('c, 'p, 'w, 'k) externals \<Rightarrow> string \<Rightarrow> string \<Rightarrow> (unit, ('c, 'w, 'k) st) prog" where
  "performWalletOperations ext walletAddress password =
     seq (consoleLog [Str ''--- Wallet Operations ---''])
       (tryCatch
          (andThen (authenticatedEvmClient ext) (\<lambda>evmClient.
           seq (checkBalance ext evmClient walletAddress)
          (seq (signMessage ext evmClient walletAddress password)
               (prepareTransaction ext evmClient walletAddress))))
          (\<lambda>error. consoleError [Str ''Wallet operations failed:'', Thrown error]))"

definition randomWalletAddress :: string where
  "randomWalletAddress = ''0x742d35Cc64C1b0ED5bbE8db88b556F0f0b7E9999''"

definition demonstrateSecurity ::
  "('c, 'p, 'w, 'k) externals \<Rightarrow> (unit, ('c, 'w, 'k) st) prog" where
  "demonstrateSecurity ext =
     seq (consoleLog [Str ''Security Demonstration:''])
       (tryCatch
          (andThen (authenticatedEvmClient ext) (\<lambda>evmClient.
           seq (consoleLog [Str ''Attempting to sign with unauthorized wallet:'',
                            Str randomWalletAddress])
          (let signReq = \<lparr>sp_message = ''Unauthorized access attempt'',
                          sp_accountAddress = randomWalletAddress,
                          sp_password = ''any-password''\<rparr> in
           andThen (callWorld (SignMessage evmClient signReq)
                      (sdkSignMessage ext evmClient signReq)) (\<lambda>signature.
           consoleLog [Str ''This should not work!'']))))
          (\<lambda>error. seq (consoleLog [Str ''Security working! Cannot access unauthorized wallet:''])
                        (consoleLog [Str ''   Error:'', Str (messageOr ''Access denied'' error)])))"

definition main :: "('c, 'p, 'w, 'k) externals \<Rightarrow> (unit, ('c, 'w, 'k) st) prog" where
  "main ext =
     seq (consoleLog [Str ''Starting wallet operations...''])
       (tryCatch
          (seq (consoleLog [Str ''=== Creating New Wallet ===''])
          (andThen (createNewWallet ext (Some ''my-secure-password'')) (\<lambda>newWallet.
           consoleLog [Str ''New Wallet Address:'', Wallet newWallet])))
          (\<lambda>error. consoleError [Str ''Main execution failed:'', Thrown error]))"

section \<open>src/unnamed/part\_000\<close>

definition part000_authenticatedEvmClient ::
  "('c, 'p, 'w, 'k) externals \<Rightarrow> ('c, ('c, 'w, 'k) st) prog" where
  "part000_authenticatedEvmClient ext =
     (let cfg = \<lparr>cfg_environmentId = DYNAMIC_ENVIRONMENT_ID ext,
                 cfg_authToken = DYNAMIC_AUTH_TOKEN ext\<rparr> in
      andThen (callWorld (NewClient cfg) (newDynamicEvmWalletClient ext cfg)) (\<lambda>client.
      andThen (callWorld (AuthenticateApiToken client (DYNAMIC_AUTH_TOKEN ext))
                 (authenticateApiToken ext client (DYNAMIC_AUTH_TOKEN ext))) (\<lambda>_.
      ret client)))"

definition part000_main :: "('c, 'p, 'w, 'k) externals \<Rightarrow> (unit, ('c, 'w, 'k) st) prog" where
  "part000_main ext =
     tryCatch
       (andThen (part000_authenticatedEvmClient ext) (\<lambda>evmClient.
        andThen (awaitCreateWalletAccount ext evmClient
                   \<lparr>cp_thresholdSignatureScheme = TWO_OF_TWO,
                    cp_password = ''your-secure-password'',
                    cp_backUpToClientShareService = True\<rparr>
                   (\<lambda>error. consoleError [Str ''EVM wallet creation error:'', Thrown error])) (\<lambda>evmWallet.
        consoleLog [Str ''EVM wallet created:'', Str (ew_accountAddress evmWallet)])))
       (\<lambda>error. consoleError [Str ''Error:'', Thrown error])"

section \<open>Observations of a run\<close>

text \<open>The calls and the console lines a run from \<open>s\<close> to \<open>s'\<close> has added.\<close>

definition newCalls :: "('c, 'w, 'k) st \<Rightarrow> ('c, 'w, 'k) st \<Rightarrow> 'c call list" where
  "newCalls s s' = drop (length (calls s)) (calls s')"

definition newConsole :: "('c, 'w, 'k) st \<Rightarrow> ('c, 'w, 'k) st \<Rightarrow> console_line list" where
  "newConsole s s' = drop (length (console s)) (console s')"

fun createParamsOf :: "'c call \<Rightarrow> create_params option" where
  "createParamsOf (CreateWalletAccount _ p) = Some p"
| "createParamsOf _ = None"

fun prepareRequestOf :: "'c call \<Rightarrow> tx_request option" where
  "prepareRequestOf (PrepareTransactionRequest r) = Some r"
| "prepareRequestOf _ = None"

text \<open>A call that only loads a module or reads the chain.\<close>

fun isChainRead :: "'c call \<Rightarrow> bool" where
  "isChainRead (ImportModule _) = True"
| "isChainRead (CreateViemPublicClient _ _) = True"
| "isChainRead (GetBalance _) = True"
| "isChainRead (PrepareTransactionRequest _) = True"
| "isChainRead _ = False"

text \<open>A call that is made on the client object \<open>c\<close>, or on no client object at all.\<close>

fun usesClient :: "'c \<Rightarrow> 'c call \<Rightarrow> bool" where
  "usesClient c (NewClient _) = False"
| "usesClient c (AuthenticateApiToken _ _) = False"
| "usesClient c (CreateWalletAccount c' _) = (c' = c)"
| "usesClient c (SignMessage c' _) = (c' = c)"
| "usesClient c (VerifyMessageSignature c' _) = (c' = c)"
| "usesClient c (CreateViemPublicClient c' _) = (c' = c)"
| "usesClient c (ImportModule _) = True"
| "usesClient c (GetBalance _) = True"
| "usesClient c (PrepareTransactionRequest _) = True"

text \<open>
  A call that neither creates key material nor asks for a signature: everything but
  \<^verbatim>\<open>createWalletAccount\<close> and \<^verbatim>\<open>signMessage\<close>.
\<close>

fun usesNoKeyShare :: "'c call \<Rightarrow> bool" where
  "usesNoKeyShare (CreateWalletAccount _ _) = False"
| "usesNoKeyShare (SignMessage _ _) = False"
| "usesNoKeyShare _ = True"

text \<open>
  A run from \<open>s\<close> to \<open>s'\<close> opens with a session of its own: it constructs a client
  object for the environment of the process, authenticates that object with the token
  of the process, and makes a further call only when both have succeeded, and then on
  that object.
\<close>

definition presentsOwnSession ::
  "('c, 'p, 'w, 'k) externals \<Rightarrow> ('c, 'w, 'k) st \<Rightarrow> ('c, 'w, 'k) st \<Rightarrow> bool" where
  "presentsOwnSession ext s s' =
     (let cfg = \<lparr>cfg_environmentId = DYNAMIC_ENVIRONMENT_ID ext, cfg_authToken = None\<rparr>;
          tok = DYNAMIC_AUTH_TOKEN ext;
          new = newCalls s s'
      in take (length (calls s)) (calls s') = calls s \<and>
         (case newDynamicEvmWalletClient ext cfg (world s) of
            (Inl _, _) \<Rightarrow> new = [NewClient cfg]
          | (Inr c, w1) \<Rightarrow>
              (case authenticateApiToken ext c tok w1 of
                 (Inl _, _) \<Rightarrow> new = [NewClient cfg, AuthenticateApiToken c tok]
               | (Inr _, _) \<Rightarrow>
                   take 2 new = [NewClient cfg, AuthenticateApiToken c tok] \<and>
                   list_all (usesClient c) (drop 2 new))))"

text \<open>
  What the two existence checks of the source ask of the chain: load the two modules,
  make the public client, read the balance; the first failure is the result.
\<close>

definition balanceProbe ::
  "('c, 'p, 'w, 'k) externals \<Rightarrow> 'c \<Rightarrow> string \<Rightarrow> 'k \<Rightarrow> thrown + int" where
  "balanceProbe ext evmClient walletAddress k =
     (case importModule ext ''viem'' of
        Some e \<Rightarrow> Inl e
      | None \<Rightarrow>
          (case importModule ext ''viem/chains'' of
             Some e \<Rightarrow> Inl e
           | None \<Rightarrow>
               (case createViemPublicClient ext evmClient
                       \<lparr>vc_chain = base, vc_rpcUrl = baseRpcUrl\<rparr> of
                  Inl e \<Rightarrow> Inl e
                | Inr publicClient \<Rightarrow> getBalance ext publicClient walletAddress k)))"

text \<open>
  What \<open>authenticatedEvmClient\<close> asks of the SDK from the world \<open>w\<close>: the client or
  the first value thrown, the world the calls leave, and the calls made.
\<close>

definition sessionProbe ::
  "('c, 'p, 'w, 'k) externals \<Rightarrow> 'w \<Rightarrow> (thrown + 'c) \<times> 'w \<times> 'c call list" where
  "sessionProbe ext w =
     (let cfg = \<lparr>cfg_environmentId = DYNAMIC_ENVIRONMENT_ID ext, cfg_authToken = None\<rparr>;
          tok = DYNAMIC_AUTH_TOKEN ext
      in case newDynamicEvmWalletClient ext cfg w of
           (Inl e, w1) \<Rightarrow> (Inl e, w1, [NewClient cfg])
         | (Inr c, w1) \<Rightarrow>
             (case authenticateApiToken ext c tok w1 of
                (Inl e, w2) \<Rightarrow> (Inl e, w2, [NewClient cfg, AuthenticateApiToken c tok])
              | (Inr _, w2) \<Rightarrow> (Inr c, w2, [NewClient cfg, AuthenticateApiToken c tok])))"


section \<open>A test double of the collaborators\<close>

text \<open>
  A small stand-in for the SDK and the chain, used to run the functions above on concrete
  inputs. Its world lists the addresses it holds a key share for and counts the client
  objects made so far; a client object is its number. It accepts one token, signs only
  for addresses it holds a share for, and reports a failed backup to \<^verbatim>\<open>onError\<close>
  when \<open>sw_backupDown\<close> is set. The chain is the answer the RPC endpoint gives to
  every read: an error, or one balance for all addresses.
\<close>

record stub_world =
  sw_shares :: "string list"
  sw_clients :: nat
  sw_authenticated :: "nat list"
  sw_backupDown :: bool

definition stubWallet :: evm_wallet where
  "stubWallet = \<lparr>ew_accountAddress = ''0xA1'', ew_walletId = ''w-1'', ew_publicKeyHex = ''0x04ab''\<rparr>"

definition stubExt :: "(nat, viem_cfg, stub_world, thrown + int) externals" where
  "stubExt =
     \<lparr>DYNAMIC_ENVIRONMENT_ID = Some ''env-1'',
      DYNAMIC_AUTH_TOKEN = Some ''dyn_token'',
      newDynamicEvmWalletClient = (\<lambda>cfg w. (Inr (sw_clients w), w\<lparr>sw_clients := Suc (sw_clients w)\<rparr>)),
      authenticateApiToken = (\<lambda>c tok w.
        if tok = Some ''dyn_token'' then (Inr (), w\<lparr>sw_authenticated := c # sw_authenticated w\<rparr>)
        else (Inl (ErrorObj ''Unauthorized'' ''invalid token''), w)),
      createWalletAccount = (\<lambda>c p w.
        ((if sw_backupDown w then [ErrorObj ''BackupFailed'' ''backup upload failed''] else [],
          Inr stubWallet),
         w\<lparr>sw_shares := ew_accountAddress stubWallet # sw_shares w\<rparr>)),
      sdkSignMessage = (\<lambda>c p w.
        if sp_accountAddress p \<in> set (sw_shares w) then (Inr ''0x5157'', w)
        else (Inl (ErrorObj ''NoLocalShare'' ''no key share for this account''), w)),
      verifyMessageSignature = (\<lambda>c p w. (Inr (vp_signature p = ''0x5157''), w)),
      toISOString = (\<lambda>w. ''2024-01-01T00:00:00.000Z''),
      importModule = (\<lambda>name. None),
      createViemPublicClient = (\<lambda>c cfg. Inr cfg),
      getBalance = (\<lambda>p a k. k),
      prepareTransactionRequest = (\<lambda>p r k.
        case k of
          Inl e \<Rightarrow> Inl e
        | Inr b \<Rightarrow> Inr \<lparr>ptx_to = Some (tx_to r), ptx_value = Some (tx_value r),
                       ptx_gas = Some 21000, ptx_gasPrice = None\<rparr>),
      parseEther = (\<lambda>t. if t = ''0.001'' then 1000000000000000 else 0)\<rparr>"

definition stubSt :: "string list \<Rightarrow> bool \<Rightarrow> thrown + int \<Rightarrow> (nat, stub_world, thrown + int) st" where
  "stubSt shares backupDown k =
     \<lparr>world = \<lparr>sw_shares = shares, sw_clients = 0, sw_authenticated = [],
               sw_backupDown = backupDown\<rparr>,
      chain = k, calls = [], console = []\<rparr>"


text \<open>
  A second test double, which keeps what the first leaves out: the environment each
  account was created in, the environment each client object was constructed for, and
  the client objects whose session is valid at the moment. A session is good for one
  signature and expires with it. Signing and verifying are refused for a client without
  a valid session, and signing also for an account of another environment.
\<close>

record env_world =
  ew_accountEnv :: "(string \<times> string) list"
  ew_clientEnv :: "(nat \<times> string option) list"
  ew_live :: "nat list"

definition envExt :: "(nat, viem_cfg, env_world, thrown + int) externals" where
  "envExt =
     \<lparr>DYNAMIC_ENVIRONMENT_ID = Some ''env-1'',
      DYNAMIC_AUTH_TOKEN = Some ''dyn_token'',
      newDynamicEvmWalletClient = (\<lambda>cfg w.
        (Inr (length (ew_clientEnv w)),
         w\<lparr>ew_clientEnv := ew_clientEnv w @ [(length (ew_clientEnv w), cfg_environmentId cfg)]\<rparr>)),
      authenticateApiToken = (\<lambda>c tok w.
        if tok = Some ''dyn_token'' then (Inr (), w\<lparr>ew_live := c # ew_live w\<rparr>)
        else (Inl (ErrorObj ''Unauthorized'' ''invalid token''), w)),
      createWalletAccount = (\<lambda>c p w.
        (([], Inl (ErrorObj ''CeremonyAborted'' ''counter-party unreachable'')), w)),
      sdkSignMessage = (\<lambda>c p w.
        if c \<notin> set (ew_live w) then (Inl (ErrorObj ''Unauthenticated'' ''session expired''), w)
        else if map_option Some (map_of (ew_accountEnv w) (sp_accountAddress p)) \<noteq>
                map_of (ew_clientEnv w) c
        then (Inl (ErrorObj ''Unauthorized'' ''account of another environment''), w)
        else (Inr ''0x5157'', w\<lparr>ew_live := removeAll c (ew_live w)\<rparr>)),
      verifyMessageSignature = (\<lambda>c p w.
        if c \<notin> set (ew_live w) then (Inl (ErrorObj ''Unauthenticated'' ''session expired''), w)
        else (Inr (vp_signature p = ''0x5157''), w)),
      toISOString = (\<lambda>w. ''2024-01-01T00:00:00.000Z''),
      importModule = (\<lambda>name. None),
      createViemPublicClient = (\<lambda>c cfg. Inr cfg),
      getBalance = (\<lambda>p a k. k),
      prepareTransactionRequest = (\<lambda>p r k.
        case k of
          Inl e \<Rightarrow> Inl e
        | Inr b \<Rightarrow> Inr \<lparr>ptx_to = Some (tx_to r), ptx_value = Some (tx_value r),
                       ptx_gas = Some 21000, ptx_gasPrice = None\<rparr>),
      parseEther = (\<lambda>t. if t = ''0.001'' then 1000000000000000 else 0)\<rparr>"

definition envSt :: "(nat, env_world, thrown + int) st" where
  "envSt =
     \<lparr>world = \<lparr>ew_accountEnv = [(''0xA1'', ''env-1''), (''0xB2'', ''env-2'')],
               ew_clientEnv = [], ew_live = []\<rparr>,
      chain = Inr 0, calls = [], console = []\<rparr>"

section \<open>The wallet core the SDK stands for\<close>

text \<open>
  Modelled from the spec: the Signing Coordinator's \<^verbatim>\<open>sign\<close> and the Wallet Lifecycle
  Manager's \<^verbatim>\<open>createAccount\<close> are operations of the SDK
  (\<^verbatim>\<open>@dynamic-labs-wallet/node-evm\<close>), which the repository calls and does not
  contain. The definitions of this section follow sections 3, 4.2, 4.3 and 6 of the
  specification. The parties the core talks to (identity service, key-generation and
  signing counter-party, backup service) are the parameter \<open>parties\<close>.
\<close>

datatype SigningError =
  Unauthenticated | NoLocalShare | PasswordMismatch | CeremonyFailed | CounterpartyUnavailable

text \<open>Modelled from the spec: the kinds of \<^verbatim>\<open>CreationError\<close> of section 4.2.\<close>

datatype CreationError = CeremonyAborted | DuplicateAccount | BackupFailed

text \<open>Modelled from the spec: the Session of section 3.\<close>

record Session =
  credential :: string
  environmentId :: string
  authenticatedAt :: nat

text \<open>Modelled from the spec: the WalletAccount of section 3.\<close>

record WalletAccount =
  wa_accountAddress :: string
  wa_walletId :: string
  wa_publicKeyHex :: string
  thresholdScheme :: ThresholdSignatureScheme
  encryptionPassword :: "string option"

text \<open>Modelled from the spec: the ShareRecord of section 3.\<close>

record ShareRecord =
  sr_walletId :: string
  shareMaterial :: string
  backedUp :: bool

text \<open>
  Modelled from the spec: what a completed key-generation ceremony hands to this client
  (section 4.2: the public identifiers of the account and, for 2-of-2, two shares).
\<close>

record dkg_result =
  dkg_accountAddress :: string
  dkg_walletId :: string
  dkg_publicKeyHex :: string
  dkg_localShare :: string
  dkg_remoteShare :: string

text \<open>
  Modelled from the spec: the collaborators of section 6, which the core only calls.
  \<open>sessionOk\<close> is precondition (a) of \<^verbatim>\<open>sign\<close>: the session is valid and
  environment-scoped to the account. \<open>dkg\<close> is the key-generation ceremony (\<open>None\<close>
  when the counter-party is unreachable or rejects), \<open>upload\<close> the backup service
  (\<open>True\<close> for an acknowledgement), \<open>signingCeremony\<close> the signing ceremony with the
  counter-party, which fails with \<open>CeremonyFailed\<close> or \<open>CounterpartyUnavailable\<close>.
\<close>

record parties =
  sessionOk :: "Session \<Rightarrow> string \<Rightarrow> bool"
  dkg :: "Session \<Rightarrow> ThresholdSignatureScheme \<Rightarrow> dkg_result option"
  encryptShare :: "Session \<Rightarrow> string \<Rightarrow> string"
  upload :: "string \<Rightarrow> string \<Rightarrow> bool"
  signingCeremony :: "ShareRecord \<Rightarrow> string \<Rightarrow> SigningError + string"

text \<open>
  Modelled from the spec: the state of the core, that is the accounts and the Share
  Store of section 3, both keyed by account address, and the signing ceremonies that
  have been run (address and message).
\<close>

record core =
  accounts :: "(string \<times> WalletAccount) list"
  shareStore :: "(string \<times> ShareRecord) list"
  ceremonies :: "(string \<times> string) list"

text \<open>
  Modelled from the spec: the result of \<^verbatim>\<open>createAccount\<close>, which is a failure, or an
  account together with the non-fatal condition reported alongside it (section 4.2:
  \<^verbatim>\<open>BackupFailed\<close> is reported while the account is still usable).
\<close>

datatype creation_outcome = Failed CreationError | Created WalletAccount "CreationError option"

text \<open>
  Modelled from the spec: \<^verbatim>\<open>createAccount\<close> of section 4.2. The ceremony runs first; on
  its success one ShareRecord is inserted whether or not the backup succeeds, and the
  record's \<open>backedUp\<close> says whether the backup service acknowledged the upload.
\<close>

definition createAccount ::
  "parties \<Rightarrow> Session \<Rightarrow> ThresholdSignatureScheme \<Rightarrow> string option \<Rightarrow> bool \<Rightarrow> core \<Rightarrow>
   creation_outcome \<times> core" where
  "createAccount ps session scheme password backupEnabled c =
     (case dkg ps session scheme of
        None \<Rightarrow> (Failed CeremonyAborted, c)
      | Some k \<Rightarrow>
          if map_of (shareStore c) (dkg_accountAddress k) \<noteq> None then (Failed DuplicateAccount, c)
          else
            let account = \<lparr>wa_accountAddress = dkg_accountAddress k,
                           wa_walletId = dkg_walletId k,
                           wa_publicKeyHex = dkg_publicKeyHex k,
                           thresholdScheme = scheme,
                           encryptionPassword = password\<rparr>;
                uploaded = (backupEnabled \<and>
                            upload ps (dkg_walletId k) (encryptShare ps session (dkg_remoteShare k)));
                share = \<lparr>sr_walletId = dkg_walletId k, shareMaterial = dkg_localShare k,
                         backedUp = uploaded\<rparr>
            in (Created account (if backupEnabled \<and> \<not> uploaded then Some BackupFailed else None),
                c\<lparr>accounts := (dkg_accountAddress k, account) # accounts c,
                  shareStore := (dkg_accountAddress k, share) # shareStore c\<rparr>))"

text \<open>
  Modelled from the spec: precondition (c) of \<^verbatim>\<open>sign\<close> fails when the account was
  created with a password and the supplied one is not that password.
\<close>

definition passwordRejected :: "WalletAccount option \<Rightarrow> string option \<Rightarrow> bool" where
  "passwordRejected account password =
     (case account of
        None \<Rightarrow> False
      | Some a \<Rightarrow> (case encryptionPassword a of None \<Rightarrow> False | Some P \<Rightarrow> password \<noteq> Some P))"

text \<open>
  Modelled from the spec: \<^verbatim>\<open>sign\<close> of section 4.3. The three preconditions are checked
  in the order (a), (b), (c); the ceremony runs only when all three hold.
\<close>

definition sign ::
  "parties \<Rightarrow> Session \<Rightarrow> string \<Rightarrow> string \<Rightarrow> string option \<Rightarrow> core \<Rightarrow>
   (SigningError + string) \<times> core" where
  "sign ps session address message password c =
     (if \<not> sessionOk ps session address then (Inl Unauthenticated, c)
      else
        (case map_of (shareStore c) address of
           None \<Rightarrow> (Inl NoLocalShare, c)
         | Some share \<Rightarrow>
             if passwordRejected (map_of (accounts c) address) password
             then (Inl PasswordMismatch, c)
             else (signingCeremony ps share message,
                   c\<lparr>ceremonies := ceremonies c @ [(address, message)]\<rparr>)))"

text \<open>Parties and values to run the core on.\<close>

definition stubKey :: dkg_result where
  "stubKey = \<lparr>dkg_accountAddress = ''0xA1'', dkg_walletId = ''w-1'', dkg_publicKeyHex = ''0x04ab'',
              dkg_localShare = ''share-1'', dkg_remoteShare = ''share-2''\<rparr>"

definition stubParties :: "bool \<Rightarrow> parties" where
  "stubParties backupUp =
     \<lparr>sessionOk = (\<lambda>session address. environmentId session = ''env-1''),
      dkg = (\<lambda>session scheme. Some stubKey),
      encryptShare = (\<lambda>session share. ''enc:'' @ share),
      upload = (\<lambda>wid payload. backupUp),
      signingCeremony = (\<lambda>share message. Inr (''sig:'' @ message))\<rparr>"

definition stubSession :: "string \<Rightarrow> Session" where
  "stubSession env = \<lparr>credential = ''dyn_token'', environmentId = env, authenticatedAt = 0\<rparr>"

definition emptyCore :: core where
  "emptyCore = \<lparr>accounts = [], shareStore = [], ceremonies = []\<rparr>"

section \<open>How the functions of the source run\<close>

lemmas prog_defs = ret_def throw_def andThen_def tryCatch_def seq_def consoleLog_def consoleError_def
  callWorld_def callChain_def callPure_def awaitImport_def nowISOString_def

lemma foldl_console_calls:
  "calls (foldl (\<lambda>s' e. s'\<lparr>console := console s' @ g e\<rparr>) s0 es) = calls s0"
  by (induction es arbitrary: s0) simp_all

lemma foldl_console_world:
  "world (foldl (\<lambda>s' e. s'\<lparr>console := console s' @ g e\<rparr>) s0 es) = world s0"
  by (induction es arbitrary: s0) simp_all

lemma foldl_console_chain:
  "chain (foldl (\<lambda>s' e. s'\<lparr>console := console s' @ g e\<rparr>) s0 es) = chain s0"
  by (induction es arbitrary: s0) simp_all

lemma andThen_alt:
  "andThen m f s = (case fst (m s) of Inl e \<Rightarrow> (Inl e, snd (m s)) | Inr v \<Rightarrow> f v (snd (m s)))"
  by (simp add: andThen_def split: prod.splits sum.splits)

lemma tryCatch_alt:
  "tryCatch m h s = (case fst (m s) of Inl e \<Rightarrow> h e (snd (m s)) | Inr v \<Rightarrow> (Inr v, snd (m s)))"
  by (simp add: tryCatch_def split: prod.splits sum.splits)

lemma calls_decomp:
  "take (length (calls s)) (calls s') = calls s \<Longrightarrow> calls s' = calls s @ newCalls s s'"
  by (metis append_take_drop_id newCalls_def)

lemma newCalls_trans:
  assumes "take (length (calls s)) (calls s1) = calls s"
    and "take (length (calls s1)) (calls s2) = calls s1"
  shows "take (length (calls s)) (calls s2) = calls s"
    and "newCalls s s2 = newCalls s s1 @ newCalls s1 s2"
proof -
  have a: "calls s1 = calls s @ newCalls s s1" using assms(1) by (rule calls_decomp)
  have b: "calls s2 = calls s1 @ newCalls s1 s2" using assms(2) by (rule calls_decomp)
  have c: "calls s2 = calls s @ (newCalls s s1 @ newCalls s1 s2)" using a b by simp
  show "take (length (calls s)) (calls s2) = calls s" by (subst c) simp
  show "newCalls s s2 = newCalls s s1 @ newCalls s1 s2"
    unfolding newCalls_def[of s s2] by (subst c) simp
qed

lemma checkBalance_returns: "fst (checkBalance ext c a s) = Inr ()"
  by (simp add: checkBalance_def prog_defs Let_def split: prod.splits sum.splits option.splits)


lemma checkBalance_calls:
  "take (length (calls s)) (calls (snd (checkBalance ext c a s))) = calls s \<and>
   list_all (usesClient c) (newCalls s (snd (checkBalance ext c a s))) \<and>
   list_all isChainRead (newCalls s (snd (checkBalance ext c a s)))"
  by (simp add: checkBalance_def prog_defs newCalls_def Let_def split: prod.splits sum.splits option.splits)

lemma prepareTransaction_returns: "fst (prepareTransaction ext c a s) = Inr ()"
  by (simp add: prepareTransaction_def prog_defs Let_def split: prod.splits sum.splits option.splits)

lemma prepareTransaction_world:
  "world (snd (prepareTransaction ext c a s)) = world s \<and> chain (snd (prepareTransaction ext c a s)) = chain s"
  by (simp add: prepareTransaction_def prog_defs Let_def split: prod.splits sum.splits option.splits)

lemma prepareTransaction_calls:
  "take (length (calls s)) (calls (snd (prepareTransaction ext c a s))) = calls s \<and>
   list_all (usesClient c) (newCalls s (snd (prepareTransaction ext c a s))) \<and>
   list_all isChainRead (newCalls s (snd (prepareTransaction ext c a s)))"
  by (simp add: prepareTransaction_def prog_defs newCalls_def Let_def split: prod.splits sum.splits option.splits)

lemma signMessage_returns: "fst (signMessage ext c a pw s) = Inr ()"
  by (simp add: signMessage_def prog_defs Let_def split: prod.splits sum.splits option.splits)

lemma signMessage_calls:
  "take (length (calls s)) (calls (snd (signMessage ext c a pw s))) = calls s \<and>
   list_all (usesClient c) (newCalls s (snd (signMessage ext c a pw s)))"
  by (simp add: signMessage_def prog_defs newCalls_def Let_def split: prod.splits sum.splits option.splits)


lemma walletOps_effect:
  fixes ext :: "('c, 'p, 'w, 'k) externals"
  defines "body \<equiv> (\<lambda>c a pw. seq (checkBalance ext c a) (seq (signMessage ext c a pw) (prepareTransaction ext c a)))"
  shows "fst (body c a pw s) = Inr ()"
    and "take (length (calls s)) (calls (snd (body c a pw s))) = calls s"
    and "list_all (usesClient c) (newCalls s (snd (body c a pw s)))"
proof -
  let ?s1 = "snd (checkBalance ext c a s)"
  let ?s2 = "snd (signMessage ext c a pw ?s1)"
  let ?s3 = "snd (prepareTransaction ext c a ?s2)"
  have run: "body c a pw s = (Inr (), ?s3)"
    by (simp add: body_def seq_def andThen_alt checkBalance_returns signMessage_returns
          prepareTransaction_returns prod_eq_iff)
  show "fst (body c a pw s) = Inr ()" by (simp add: run)
  have t12: "take (length (calls s)) (calls ?s2) = calls s"
    and n12: "newCalls s ?s2 = newCalls s ?s1 @ newCalls ?s1 ?s2"
    using newCalls_trans[of s ?s1 ?s2] checkBalance_calls[of s ext c a]
      signMessage_calls[of ?s1 ext c a pw] by simp_all
  have t13: "take (length (calls s)) (calls ?s3) = calls s"
    and n13: "newCalls s ?s3 = newCalls s ?s2 @ newCalls ?s2 ?s3"
    using newCalls_trans[of s ?s2 ?s3] t12 prepareTransaction_calls[of ?s2 ext c a] by simp_all
  show "take (length (calls s)) (calls (snd (body c a pw s))) = calls s" by (simp add: run t13)
  show "list_all (usesClient c) (newCalls s (snd (body c a pw s)))"
    using checkBalance_calls[of s ext c a] signMessage_calls[of ?s1 ext c a pw]
      prepareTransaction_calls[of ?s2 ext c a]
    by (simp add: run n13 n12)
qed

lemma auth_effect:
  "(case newDynamicEvmWalletClient ext \<lparr>cfg_environmentId = DYNAMIC_ENVIRONMENT_ID ext, cfg_authToken = None\<rparr> (world s) of
      (Inl e, w1) \<Rightarrow>
        authenticatedEvmClient ext s =
          (Inl e, s\<lparr>world := w1,
                    calls := calls s @ [NewClient \<lparr>cfg_environmentId = DYNAMIC_ENVIRONMENT_ID ext, cfg_authToken = None\<rparr>]\<rparr>)
    | (Inr c, w1) \<Rightarrow>
        (case authenticateApiToken ext c (DYNAMIC_AUTH_TOKEN ext) w1 of
           (r, w2) \<Rightarrow>
             authenticatedEvmClient ext s =
               (case r of Inl e \<Rightarrow> Inl e | Inr _ \<Rightarrow> Inr c,
                s\<lparr>world := w2,
                  calls := calls s @ [NewClient \<lparr>cfg_environmentId = DYNAMIC_ENVIRONMENT_ID ext, cfg_authToken = None\<rparr>,
                                      AuthenticateApiToken c (DYNAMIC_AUTH_TOKEN ext)]\<rparr>)))"
  by (simp add: authenticatedEvmClient_def prog_defs Let_def split: prod.splits sum.splits)

lemma own_performWalletOperations: "presentsOwnSession ext s (snd (performWalletOperations ext a pw s))"
proof -
  let ?cfg = "\<lparr>cfg_environmentId = DYNAMIC_ENVIRONMENT_ID ext, cfg_authToken = None\<rparr>"
  let ?tok = "DYNAMIC_AUTH_TOKEN ext"
  let ?body = "\<lambda>c. seq (checkBalance ext c a) (seq (signMessage ext c a pw) (prepareTransaction ext c a))"
  let ?s0 = "snd (consoleLog [Str ''--- Wallet Operations ---''] s)"
  let ?auth = "authenticatedEvmClient ext ?s0"
  have perf: "snd (performWalletOperations ext a pw s) =
      (case fst ?auth of
         Inl e \<Rightarrow> snd (consoleError [Str ''Wallet operations failed:'', Thrown e] (snd ?auth))
       | Inr c \<Rightarrow> snd (?body c (snd ?auth)))"
    by (simp add: performWalletOperations_def seq_def[of "consoleLog _"] andThen_alt[of "consoleLog _"]
          andThen_alt[of "authenticatedEvmClient _"] tryCatch_alt consoleLog_def walletOps_effect(1)
        split: sum.splits)
  have s0: "world ?s0 = world s" "calls ?s0 = calls s" by (simp_all add: consoleLog_def)
  obtain r1 w1 where nc: "newDynamicEvmWalletClient ext ?cfg (world s) = (r1, w1)" by force
  show ?thesis
  proof (cases r1)
    case (Inl e)
    then show ?thesis using nc auth_effect[of ext ?s0]
      by (simp add: presentsOwnSession_def perf newCalls_def consoleError_def s0)
  next
    case c: (Inr c)
    obtain r2 w2 where au: "authenticateApiToken ext c ?tok w1 = (r2, w2)" by force
    show ?thesis
    proof (cases r2)
      case (Inl e)
      then show ?thesis using nc c au auth_effect[of ext ?s0]
        by (simp add: presentsOwnSession_def perf newCalls_def consoleError_def s0)
    next
      case (Inr u)
      let ?s1 = "snd ?auth"
      let ?s' = "snd (?body c ?s1)"
      have a1: "fst ?auth = Inr c" and c1: "calls ?s1 = calls s @ [NewClient ?cfg, AuthenticateApiToken c ?tok]"
        using nc c au Inr auth_effect[of ext ?s0] by (simp_all add: s0)
      have fin: "snd (performWalletOperations ext a pw s) = ?s'" by (simp add: perf a1)
      have "calls ?s' = calls ?s1 @ newCalls ?s1 ?s'"
        by (rule calls_decomp) (rule walletOps_effect(2))
      then have dec: "calls ?s' = calls s @ [NewClient ?cfg, AuthenticateApiToken c ?tok] @ newCalls ?s1 ?s'"
        by (simp add: c1)
      have nw: "newCalls s ?s' = [NewClient ?cfg, AuthenticateApiToken c ?tok] @ newCalls ?s1 ?s'"
        unfolding newCalls_def[of s] by (subst dec) simp
      have tk: "take (length (calls s)) (calls ?s') = calls s" by (subst dec) simp
      show ?thesis using nc c au Inr walletOps_effect(3)[of c ?s1 ext a pw]
        by (simp add: presentsOwnSession_def fin nw tk)
    qed
  qed
qed

lemma own_createNewWallet: "presentsOwnSession ext s (snd (createNewWallet ext password s))"
  by (simp add: presentsOwnSession_def createNewWallet_def authenticatedEvmClient_def
        awaitCreateWalletAccount_def prog_defs newCalls_def Let_def foldl_console_calls
      split: prod.splits sum.splits)

lemma own_initializeExistingWallet:
  "presentsOwnSession ext s (snd (initializeExistingWallet ext a s))"
  by (simp add: presentsOwnSession_def initializeExistingWallet_def checkWalletExists_def
        authenticatedEvmClient_def prog_defs newCalls_def Let_def
      split: prod.splits sum.splits option.splits)

lemma own_demonstrateSecurity: "presentsOwnSession ext s (snd (demonstrateSecurity ext s))"
  by (simp add: presentsOwnSession_def demonstrateSecurity_def authenticatedEvmClient_def
        prog_defs newCalls_def Let_def
      split: prod.splits sum.splits option.splits)

lemma own_main: "presentsOwnSession ext s (snd (main ext s))"
  by (simp add: presentsOwnSession_def main_def createNewWallet_def authenticatedEvmClient_def
        awaitCreateWalletAccount_def prog_defs newCalls_def Let_def foldl_console_calls
      split: prod.splits sum.splits)



lemma auth_probe:
  "authenticatedEvmClient ext s =
     (case sessionProbe ext (world s) of
        (r, w, cs) \<Rightarrow> (r, s\<lparr>world := w, calls := calls s @ cs\<rparr>))"
  by (simp add: authenticatedEvmClient_def sessionProbe_def prog_defs Let_def
      split: prod.splits sum.splits)


lemma signMessage_run:
  "signMessage ext c a pw s =
     (case sdkSignMessage ext c
             \<lparr>sp_message = ''Hello from wallet '' @ a @ '' at '' @ toISOString ext (world s),
              sp_accountAddress = a, sp_password = pw\<rparr> (world s) of
        (Inl e, w') \<Rightarrow>
          (Inr (),
           s\<lparr>world := w',
             calls := calls s @
               [SignMessage c
                  \<lparr>sp_message = ''Hello from wallet '' @ a @ '' at '' @ toISOString ext (world s),
                   sp_accountAddress = a, sp_password = pw\<rparr>],
             console := console s @
               [ConsoleError [Str ''Message signing failed:'', Str (messageOr ''Unknown error'' e)]]\<rparr>)
      | (Inr signature, w1) \<Rightarrow>
          (case verifyMessageSignature ext c
                  \<lparr>vp_accountAddress = a,
                   vp_message = ''Hello from wallet '' @ a @ '' at '' @ toISOString ext (world s),
                   vp_signature = signature\<rparr> w1 of
             (r, w2) \<Rightarrow>
               (Inr (),
                s\<lparr>world := w2,
                  calls := calls s @
                    [SignMessage c
                       \<lparr>sp_message = ''Hello from wallet '' @ a @ '' at '' @ toISOString ext (world s),
                        sp_accountAddress = a, sp_password = pw\<rparr>,
                     VerifyMessageSignature c
                       \<lparr>vp_accountAddress = a,
                        vp_message = ''Hello from wallet '' @ a @ '' at '' @ toISOString ext (world s),
                        vp_signature = signature\<rparr>],
                  console := console s @
                    [ConsoleLog [Str ''Message signed:'',
                                 Str (''Hello from wallet '' @ a @ '' at '' @ toISOString ext (world s))],
                     ConsoleLog [Str ''Signature:'', Str signature],
                     (case r of
                        Inl e \<Rightarrow>
                          ConsoleError [Str ''Message signing failed:'',
                                        Str (messageOr ''Unknown error'' e)]
                      | Inr isValid \<Rightarrow>
                          ConsoleLog [Str ''Signature verification:'',
                                      Str (if isValid then ''Valid'' else ''Invalid'')])]\<rparr>)))"
  by (simp add: signMessage_def prog_defs Let_def split: prod.splits sum.splits)



lemma performWalletOperations_run:
  "performWalletOperations ext a pw s =
     (case sessionProbe ext (world s) of
        (Inl e, w, cs) \<Rightarrow>
          (Inr (),
           s\<lparr>world := w, calls := calls s @ cs,
             console := console s @
               [ConsoleLog [Str ''--- Wallet Operations ---''],
                ConsoleError [Str ''Wallet operations failed:'', Thrown e]]\<rparr>)
      | (Inr c, w, cs) \<Rightarrow>
          (Inr (),
           snd (prepareTransaction ext c a
             (snd (signMessage ext c a pw
               (snd (checkBalance ext c a
                 (s\<lparr>console := console s @ [ConsoleLog [Str ''--- Wallet Operations ---'']],
                    world := w, calls := calls s @ cs\<rparr>))))))))"
  by (simp add: performWalletOperations_def seq_def andThen_alt tryCatch_alt consoleLog_def
        consoleError_def auth_probe checkBalance_returns signMessage_returns
        prepareTransaction_returns prod_eq_iff
      split: prod.splits sum.splits)



section \<open>Sessions\<close>

text \<open>
  The claim C9 says that every operation presents a valid, non-expired session scoped to
  the environment the account was created in. The operations take the environment from
  the process, whatever account they are given, and authenticate once, at their start.
  \<open>performWalletOperations\<close> asks for a signature for an account of the environment
  \<^verbatim>\<open>env-2\<close> on a client constructed for \<^verbatim>\<open>env-1\<close>; and for an account of its own
  environment, when the session expires with the signature, it asks for the verification
  on the client whose session has expired.
\<close>

theorem session_not_matched_to_account_nor_rechecked:
  "map_of (ew_accountEnv (world envSt)) ''0xB2'' = Some ''env-2'' \<and>
   take 2 (newCalls envSt (snd (performWalletOperations envExt ''0xB2'' ''pw'' envSt))) =
     [NewClient \<lparr>cfg_environmentId = Some ''env-1'', cfg_authToken = None\<rparr>,
      AuthenticateApiToken 0 (Some ''dyn_token'')] \<and>
   SignMessage 0
      \<lparr>sp_message = ''Hello from wallet 0xB2 at 2024-01-01T00:00:00.000Z'',
       sp_accountAddress = ''0xB2'', sp_password = ''pw''\<rparr>
     \<in> set (newCalls envSt (snd (performWalletOperations envExt ''0xB2'' ''pw'' envSt))) \<and>
   map_of (ew_accountEnv (world envSt)) ''0xA1'' = Some ''env-1'' \<and>
   drop 6 (take 8 (newCalls envSt (snd (performWalletOperations envExt ''0xA1'' ''pw'' envSt)))) =
     [SignMessage 0
        \<lparr>sp_message = ''Hello from wallet 0xA1 at 2024-01-01T00:00:00.000Z'',
         sp_accountAddress = ''0xA1'', sp_password = ''pw''\<rparr>,
      VerifyMessageSignature 0
        \<lparr>vp_accountAddress = ''0xA1'',
         vp_message = ''Hello from wallet 0xA1 at 2024-01-01T00:00:00.000Z'',
         vp_signature = ''0x5157''\<rparr>] \<and>
   ConsoleError [Str ''Message signing failed:'', Str ''session expired'']
     \<in> set (console (snd (performWalletOperations envExt ''0xA1'' ''pw'' envSt))) \<and>
   ew_live (world (snd (performWalletOperations envExt ''0xA1'' ''pw'' envSt))) = []"
  by (simp add: performWalletOperations_run signMessage_run checkBalance_def
        prepareTransaction_def sessionProbe_def prog_defs envExt_def envSt_def newCalls_def
        messageOr_def Let_def)

text \<open>
  C9, as amended. Every operation of the source presents a session of its own, scoped
  to the environment of the process: \<open>createNewWallet\<close>, \<open>initializeExistingWallet\<close>,
  \<open>performWalletOperations\<close>, \<open>demonstrateSecurity\<close> and \<open>main\<close> each construct a new
  client object for \<^verbatim>\<open>DYNAMIC_ENVIRONMENT_ID\<close>, authenticate it with
  \<^verbatim>\<open>DYNAMIC_AUTH_TOKEN\<close>, and call the SDK or the chain only after the authentication
  has succeeded, and only on that client object, whatever wallet address they are
  given. The statement holds from every state \<open>s\<close>, so also after an earlier operation:
  no session is kept from one operation to the next, and each operation authenticates
  for itself.
\<close>

theorem operations_present_own_session:
  "presentsOwnSession ext s (snd (createNewWallet ext password s)) \<and>
   presentsOwnSession ext s (snd (initializeExistingWallet ext walletAddress s)) \<and>
   presentsOwnSession ext s (snd (performWalletOperations ext walletAddress pw s)) \<and>
   presentsOwnSession ext s (snd (demonstrateSecurity ext s)) \<and>
   presentsOwnSession ext s (snd (main ext s))"
  by (simp add: own_createNewWallet own_initializeExistingWallet own_performWalletOperations
        own_demonstrateSecurity own_main)

theorem operations_present_own_session_witness:
  "presentsOwnSession stubExt (stubSt [] False (Inr 0))
     (snd (demonstrateSecurity stubExt (stubSt [] False (Inr 0)))) \<and>
   newCalls (stubSt [] False (Inr 0)) (snd (demonstrateSecurity stubExt (stubSt [] False (Inr 0)))) =
     [NewClient \<lparr>cfg_environmentId = Some ''env-1'', cfg_authToken = None\<rparr>,
      AuthenticateApiToken 0 (Some ''dyn_token''),
      SignMessage 0 \<lparr>sp_message = ''Unauthorized access attempt'',
                      sp_accountAddress = randomWalletAddress,
                      sp_password = ''any-password''\<rparr>]"
  using operations_present_own_session
    [where ext = stubExt and s = "stubSt [] False (Inr 0)" and password = None
       and walletAddress = "''0xA1''" and pw = "''pw''"]
  by (simp add: demonstrateSecurity_def authenticatedEvmClient_def prog_defs newCalls_def
        stubExt_def stubSt_def Let_def)

section \<open>Wallet creation\<close>

text \<open>
  C10. Whatever password the caller passes, \<open>createNewWallet\<close> asks the SDK for a
  2-of-2 wallet with the backup to the share service switched on and with a password
  that is never empty: the caller's password when it is a non-empty string, the string
  \<^verbatim>\<open>your-secure-password\<close> when the caller passes none or the empty string. The
  request is made once, when the authentication has succeeded, and not otherwise. The
  quick-start \<open>part000_main\<close> makes the same request with the default password.
\<close>

theorem createNewWallet_fixed_parameters:
  "List.map_filter createParamsOf (newCalls s (snd (createNewWallet ext password s))) =
     (case fst (authenticatedEvmClient ext s) of
        Inl _ \<Rightarrow> []
      | Inr _ \<Rightarrow> [\<lparr>cp_thresholdSignatureScheme = TWO_OF_TWO,
                   cp_password = passwordOrDefault password,
                   cp_backUpToClientShareService = True\<rparr>]) \<and>
   passwordOrDefault password \<noteq> [] \<and>
   passwordOrDefault None = ''your-secure-password'' \<and>
   passwordOrDefault (Some []) = ''your-secure-password'' \<and>
   (password \<noteq> None \<and> password \<noteq> Some [] \<longrightarrow> Some (passwordOrDefault password) = password) \<and>
   List.map_filter createParamsOf (newCalls s (snd (part000_main ext s))) =
     (case fst (part000_authenticatedEvmClient ext s) of
        Inl _ \<Rightarrow> []
      | Inr _ \<Rightarrow> [\<lparr>cp_thresholdSignatureScheme = TWO_OF_TWO,
                   cp_password = ''your-secure-password'',
                   cp_backUpToClientShareService = True\<rparr>])"
proof -
  have new: "List.map_filter createParamsOf (newCalls s (snd (createNewWallet ext password s))) =
     (case fst (authenticatedEvmClient ext s) of
        Inl _ \<Rightarrow> []
      | Inr _ \<Rightarrow> [\<lparr>cp_thresholdSignatureScheme = TWO_OF_TWO,
                   cp_password = passwordOrDefault password,
                   cp_backUpToClientShareService = True\<rparr>])"
    by (simp add: createNewWallet_def authenticatedEvmClient_def awaitCreateWalletAccount_def
          prog_defs newCalls_def Let_def List.map_filter_simps foldl_console_calls
        split: prod.splits sum.splits)
  have quick: "List.map_filter createParamsOf (newCalls s (snd (part000_main ext s))) =
     (case fst (part000_authenticatedEvmClient ext s) of
        Inl _ \<Rightarrow> []
      | Inr _ \<Rightarrow> [\<lparr>cp_thresholdSignatureScheme = TWO_OF_TWO,
                   cp_password = ''your-secure-password'',
                   cp_backUpToClientShareService = True\<rparr>])"
    by (simp add: part000_main_def part000_authenticatedEvmClient_def awaitCreateWalletAccount_def
          prog_defs newCalls_def Let_def List.map_filter_simps foldl_console_calls
        split: prod.splits sum.splits)
  have pw: "passwordOrDefault password \<noteq> []"
    "passwordOrDefault None = ''your-secure-password''"
    "passwordOrDefault (Some []) = ''your-secure-password''"
    "password \<noteq> None \<and> password \<noteq> Some [] \<longrightarrow> Some (passwordOrDefault password) = password"
    by (auto simp: passwordOrDefault_def split: option.splits)
  show ?thesis using new quick pw by simp
qed

theorem createNewWallet_fixed_parameters_witness:
  "List.map_filter createParamsOf
     (newCalls (stubSt [] False (Inr 0))
        (snd (createNewWallet stubExt (Some ''hunter2'') (stubSt [] False (Inr 0))))) =
     [\<lparr>cp_thresholdSignatureScheme = TWO_OF_TWO, cp_password = ''hunter2'',
       cp_backUpToClientShareService = True\<rparr>] \<and>
   Some (passwordOrDefault (Some ''hunter2'')) = Some ''hunter2''"
  using createNewWallet_fixed_parameters
    [where ext = stubExt and s = "stubSt [] False (Inr 0)" and password = "Some ''hunter2''"]
  by (simp add: authenticatedEvmClient_def prog_defs stubExt_def stubSt_def Let_def)

section \<open>Transaction preparation\<close>

lemma prepareTransaction_console:
  "chain s2 = chain s1 \<Longrightarrow>
   newConsole s2 (snd (prepareTransaction ext c a s2)) = newConsole s1 (snd (prepareTransaction ext c a s1))"
  by (simp add: prepareTransaction_def prog_defs newConsole_def Let_def
      split: prod.splits sum.splits option.splits)

lemma prepareTransaction_requests:
  "list_all (\<lambda>r. r = \<lparr>tx_to = nullAddress, tx_value = parseEther ext ''0.001'',
                        tx_chain = base, tx_account = a\<rparr>)
     (List.map_filter prepareRequestOf (newCalls s (snd (prepareTransaction ext c a s))))"
  by (simp add: prepareTransaction_def prog_defs newCalls_def Let_def
      split: prod.splits sum.splits option.splits)

text \<open>
  C8. \<open>prepareTransaction\<close> writes the same prepared transaction whenever it runs with
  the same wallet address against the same chain state, whatever else differs between
  the two runs, and so also when it runs twice in a row. It leaves the state of the SDK
  (accounts, shares, sessions) and the chain as they were: every call it makes is a
  module load or a chain read, none is a signing or a wallet-creation request. The one
  request it sends to the chain client asks for the null address and the value of
  \<^verbatim>\<open>parseEther('0.001')\<close>.
\<close>

theorem prepareTransaction_repeatable_read_only:
  assumes "chain s2 = chain s1"
  shows "newConsole s2 (snd (prepareTransaction ext c a s2)) =
           newConsole s1 (snd (prepareTransaction ext c a s1)) \<and>
         newConsole (snd (prepareTransaction ext c a s1))
             (snd (prepareTransaction ext c a (snd (prepareTransaction ext c a s1)))) =
           newConsole s1 (snd (prepareTransaction ext c a s1)) \<and>
         world (snd (prepareTransaction ext c a s1)) = world s1 \<and>
         chain (snd (prepareTransaction ext c a s1)) = chain s1 \<and>
         list_all isChainRead (newCalls s1 (snd (prepareTransaction ext c a s1))) \<and>
         list_all (\<lambda>r. r = \<lparr>tx_to = nullAddress, tx_value = parseEther ext ''0.001'',
                              tx_chain = base, tx_account = a\<rparr>)
           (List.map_filter prepareRequestOf (newCalls s1 (snd (prepareTransaction ext c a s1))))"
  using prepareTransaction_console[OF assms, of ext c a]
    prepareTransaction_console[of "snd (prepareTransaction ext c a s1)" s1 ext c a]
    prepareTransaction_world[of ext c a s1] prepareTransaction_calls[of s1 ext c a]
    prepareTransaction_requests[of ext a s1 c]
  by simp

theorem prepareTransaction_repeatable_read_only_witness:
  "chain (stubSt [''0xA1''] True (Inr 5)) = chain (stubSt [] False (Inr 5)) \<and>
   newConsole (stubSt [''0xA1''] True (Inr 5))
       (snd (prepareTransaction stubExt 0 ''0xA1'' (stubSt [''0xA1''] True (Inr 5)))) =
     [ConsoleLog [Str ''Transaction prepared:'',
                  Tx (Some nullAddress) (Some 1000000000000000) (Some 21000) None],
      ConsoleLog [Str ''Note: Transaction not sent - this is just preparation demo'']] \<and>
   newConsole (stubSt [] False (Inr 5))
       (snd (prepareTransaction stubExt 0 ''0xA1'' (stubSt [] False (Inr 5)))) =
     [ConsoleLog [Str ''Transaction prepared:'',
                  Tx (Some nullAddress) (Some 1000000000000000) (Some 21000) None],
      ConsoleLog [Str ''Note: Transaction not sent - this is just preparation demo'']]"
proof -
  have h: "chain (stubSt [''0xA1''] True (Inr 5)) = chain (stubSt [] False (Inr 5))"
    by (simp add: stubSt_def)
  have r: "newConsole (stubSt [] False (Inr 5))
       (snd (prepareTransaction stubExt 0 ''0xA1'' (stubSt [] False (Inr 5)))) =
     [ConsoleLog [Str ''Transaction prepared:'',
                  Tx (Some nullAddress) (Some 1000000000000000) (Some 21000) None],
      ConsoleLog [Str ''Note: Transaction not sent - this is just preparation demo'']]"
    by (simp add: prepareTransaction_def prog_defs newConsole_def stubExt_def stubSt_def Let_def)
  show ?thesis
    using prepareTransaction_repeatable_read_only[OF h, of stubExt 0 "''0xA1''"] h r by simp
qed

section \<open>Failures\<close>




section \<open>Initialising an existing wallet\<close>

lemma checkWalletExists_result:
  "fst (checkWalletExists ext c a s) =
     (case balanceProbe ext c a (chain s) of
        Inl e \<Rightarrow> Inl (newError (''Wallet verification failed: '' @ messageOr ''Unknown error'' e))
      | Inr _ \<Rightarrow> Inr ())"
  by (auto simp add: checkWalletExists_def balanceProbe_def prog_defs Let_def
      split: prod.splits sum.splits option.splits)

lemma checkWalletExists_world:
  "world (snd (checkWalletExists ext c a s)) = world s \<and>
   chain (snd (checkWalletExists ext c a s)) = chain s"
  by (simp add: checkWalletExists_def prog_defs Let_def
      split: prod.splits sum.splits option.splits)

lemma initializeExistingWallet_result:
  "fst (initializeExistingWallet ext a s) =
     (case newDynamicEvmWalletClient ext
             \<lparr>cfg_environmentId = DYNAMIC_ENVIRONMENT_ID ext, cfg_authToken = None\<rparr> (world s) of
        (Inl e, _) \<Rightarrow> Inl e
      | (Inr c, w1) \<Rightarrow>
          (case authenticateApiToken ext c (DYNAMIC_AUTH_TOKEN ext) w1 of
             (Inl e, _) \<Rightarrow> Inl e
           | (Inr _, _) \<Rightarrow>
               (case balanceProbe ext c a (chain s) of
                  Inl e \<Rightarrow>
                    Inl (newError (''Wallet verification failed: '' @ messageOr ''Unknown error'' e))
                | Inr _ \<Rightarrow> Inr (c, a))))"
  by (auto simp add: initializeExistingWallet_def checkWalletExists_def balanceProbe_def
        authenticatedEvmClient_def prog_defs Let_def
      split: prod.splits sum.splits option.splits)

lemma initializeExistingWallet_calls:
  "list_all usesNoKeyShare (newCalls s (snd (initializeExistingWallet ext a s)))"
  by (simp add: initializeExistingWallet_def checkWalletExists_def
        authenticatedEvmClient_def prog_defs newCalls_def Let_def
      split: prod.splits sum.splits option.splits)

lemma initializeExistingWallet_world:
  "world (snd (initializeExistingWallet ext a s)) = world (snd (authenticatedEvmClient ext s))"
  by (simp add: initializeExistingWallet_def checkWalletExists_def
        authenticatedEvmClient_def prog_defs Let_def
      split: prod.splits sum.splits option.splits)


text \<open>
  The claim C6 says that \<open>initializeExistingWallet\<close> fails with the error
  \<^verbatim>\<open>Unauthorized\<close> when this client controls no share of the account. It asks
  the chain for the balance of the address and nothing else: with no key share for the
  address (the SDK refuses to sign for it) and a chain that answers, it succeeds; and
  when the chain read itself throws an \<^verbatim>\<open>Unauthorized\<close> error, the caller gets a
  plain \<^verbatim>\<open>Error\<close> that keeps only the message.
\<close>

theorem initializeExistingWallet_never_Unauthorized:
  "fst (sdkSignMessage stubExt 0
          \<lparr>sp_message = ''m'', sp_accountAddress = randomWalletAddress, sp_password = ''pw''\<rparr>
          (world (stubSt [] False (Inr 0)))) =
     Inl (ErrorObj ''NoLocalShare'' ''no key share for this account'') \<and>
   fst (initializeExistingWallet stubExt randomWalletAddress (stubSt [] False (Inr 0))) =
     Inr (0, randomWalletAddress) \<and>
   fst (initializeExistingWallet stubExt randomWalletAddress
          (stubSt [] False (Inl (ErrorObj ''Unauthorized'' ''share not controlled'')))) =
     Inl (ErrorObj ''Error'' ''Wallet verification failed: share not controlled'')"
  by (simp add: initializeExistingWallet_result balanceProbe_def stubExt_def stubSt_def
        messageOr_def newError_def randomWalletAddress_def)

text \<open>
  C6, as amended. \<open>initializeExistingWallet\<close> authenticates and then reads the balance
  of the address from the chain. A value thrown by the client constructor or by
  \<^verbatim>\<open>authenticateApiToken\<close> reaches the caller unchanged; a failure of the balance
  read (module load, public client, \<^verbatim>\<open>getBalance\<close>) reaches the caller as a new
  \<^verbatim>\<open>Error\<close> with the message \<^verbatim>\<open>Wallet verification failed: \<close> followed by the
  message of the cause; otherwise the call succeeds with the client and the address,
  whatever key shares the client holds. It never asks the SDK to create a wallet or to
  sign, and the state of the SDK is the one the authentication left.
\<close>

theorem initializeExistingWallet_outcome:
  "fst (initializeExistingWallet ext a s) =
     (case newDynamicEvmWalletClient ext
             \<lparr>cfg_environmentId = DYNAMIC_ENVIRONMENT_ID ext, cfg_authToken = None\<rparr> (world s) of
        (Inl e, _) \<Rightarrow> Inl e
      | (Inr c, w1) \<Rightarrow>
          (case authenticateApiToken ext c (DYNAMIC_AUTH_TOKEN ext) w1 of
             (Inl e, _) \<Rightarrow> Inl e
           | (Inr _, _) \<Rightarrow>
               (case balanceProbe ext c a (chain s) of
                  Inl e \<Rightarrow>
                    Inl (newError (''Wallet verification failed: '' @ messageOr ''Unknown error'' e))
                | Inr _ \<Rightarrow> Inr (c, a)))) \<and>
   list_all usesNoKeyShare (newCalls s (snd (initializeExistingWallet ext a s))) \<and>
   world (snd (initializeExistingWallet ext a s)) = world (snd (authenticatedEvmClient ext s))"
  using initializeExistingWallet_result[of ext a s] initializeExistingWallet_calls[of s ext a]
    initializeExistingWallet_world[of ext a s]
  by simp

theorem initializeExistingWallet_outcome_witness:
  "fst (initializeExistingWallet stubExt ''0xA1''
          (stubSt [] False (Inl (NonError ''timeout'')))) =
     Inl (ErrorObj ''Error'' ''Wallet verification failed: Unknown error'') \<and>
   world (snd (initializeExistingWallet stubExt ''0xA1''
          (stubSt [] False (Inl (NonError ''timeout''))))) =
     \<lparr>sw_shares = [], sw_clients = 1, sw_authenticated = [0], sw_backupDown = False\<rparr>"
  using initializeExistingWallet_outcome
    [where ext = stubExt and a = "''0xA1''" and s = "stubSt [] False (Inl (NonError ''timeout''))"]
  by (simp add: balanceProbe_def authenticatedEvmClient_def prog_defs stubExt_def stubSt_def
        messageOr_def newError_def Let_def)

section \<open>The wallet core: signing and creation\<close>

lemma createAccount_Created:
  assumes "createAccount ps session scheme password backupEnabled c0 = (Created account report, c)"
  shows "map_of (shareStore c) (wa_accountAddress account) \<noteq> None"
    and "map_of (accounts c) (wa_accountAddress account) = Some account"
    and "encryptionPassword account = password"
  using assms
  by (auto simp: createAccount_def Let_def split: option.splits if_splits)




text \<open>
  C3. \<^verbatim>\<open>sign\<close> checks its preconditions in the order (a) session, (b) ShareRecord,
  (c) password: a session that fails (a) gives \<^verbatim>\<open>Unauthenticated\<close> whatever the
  store and the password are; with (a) passed, a missing ShareRecord gives
  \<^verbatim>\<open>NoLocalShare\<close> whatever the password is; with (a) and (b) passed, a rejected
  password gives \<^verbatim>\<open>PasswordMismatch\<close>. In all three cases the core is unchanged, so
  no ceremony has been run; the ceremony runs exactly when all three hold. In
  particular, for a wallet that \<^verbatim>\<open>createAccount\<close> created with the password \<open>P\<close>,
  \<^verbatim>\<open>sign\<close> under a session that passes (a) and with any other password, or none,
  fails with \<^verbatim>\<open>PasswordMismatch\<close> and runs no ceremony.
\<close>

theorem sign_checks_in_order:
  "(\<not> sessionOk ps session address \<longrightarrow>
      sign ps session address message password c = (Inl Unauthenticated, c)) \<and>
   (sessionOk ps session address \<and> map_of (shareStore c) address = None \<longrightarrow>
      sign ps session address message password c = (Inl NoLocalShare, c)) \<and>
   (sessionOk ps session address \<and> map_of (shareStore c) address \<noteq> None \<and>
    passwordRejected (map_of (accounts c) address) password \<longrightarrow>
      sign ps session address message password c = (Inl PasswordMismatch, c)) \<and>
   (sessionOk ps session address \<and> map_of (shareStore c) address = Some share \<and>
    \<not> passwordRejected (map_of (accounts c) address) password \<longrightarrow>
      sign ps session address message password c =
        (signingCeremony ps share message,
         c\<lparr>ceremonies := ceremonies c @ [(address, message)]\<rparr>)) \<and>
   (createAccount ps0 session0 scheme (Some P) backupEnabled c0 = (Created account report, c) \<and>
    address = wa_accountAddress account \<and> sessionOk ps session address \<and> password \<noteq> Some P \<longrightarrow>
      sign ps session address message password c = (Inl PasswordMismatch, c))"
proof -
  have created: "sign ps session address message password c = (Inl PasswordMismatch, c)"
    if "createAccount ps0 session0 scheme (Some P) backupEnabled c0 = (Created account report, c)"
      and "address = wa_accountAddress account" and "sessionOk ps session address"
      and "password \<noteq> Some P"
    using createAccount_Created[OF that(1)] that(2-4)
    by (auto simp: sign_def passwordRejected_def)
  show ?thesis using created by (auto simp: sign_def)
qed

theorem sign_checks_in_order_witness:
  "createAccount (stubParties True) (stubSession ''env-1'') TWO_OF_TWO (Some ''P'') True emptyCore =
     (Created \<lparr>wa_accountAddress = ''0xA1'', wa_walletId = ''w-1'', wa_publicKeyHex = ''0x04ab'',
               thresholdScheme = TWO_OF_TWO, encryptionPassword = Some ''P''\<rparr> None,
      snd (createAccount (stubParties True) (stubSession ''env-1'') TWO_OF_TWO (Some ''P'') True emptyCore)) \<and>
   sign (stubParties True) (stubSession ''env-1'') ''0xA1'' ''msg'' (Some ''Q'')
       (snd (createAccount (stubParties True) (stubSession ''env-1'') TWO_OF_TWO (Some ''P'') True emptyCore)) =
     (Inl PasswordMismatch,
      snd (createAccount (stubParties True) (stubSession ''env-1'') TWO_OF_TWO (Some ''P'') True emptyCore)) \<and>
   ceremonies (snd (sign (stubParties True) (stubSession ''env-1'') ''0xA1'' ''msg'' (Some ''Q'')
       (snd (createAccount (stubParties True) (stubSession ''env-1'') TWO_OF_TWO (Some ''P'') True emptyCore)))) = []"
proof -
  let ?c = "snd (createAccount (stubParties True) (stubSession ''env-1'') TWO_OF_TWO (Some ''P'') True emptyCore)"
  let ?account = "\<lparr>wa_accountAddress = ''0xA1'', wa_walletId = ''w-1'', wa_publicKeyHex = ''0x04ab'',
               thresholdScheme = TWO_OF_TWO, encryptionPassword = Some ''P''\<rparr>"
  have cr: "createAccount (stubParties True) (stubSession ''env-1'') TWO_OF_TWO (Some ''P'') True emptyCore =
     (Created ?account None, ?c)"
    by (simp add: createAccount_def stubParties_def stubKey_def emptyCore_def Let_def)
  have ok: "sessionOk (stubParties True) (stubSession ''env-1'') ''0xA1''"
    by (simp add: stubParties_def stubSession_def)
  have cer: "ceremonies ?c = []"
    by (simp add: createAccount_def stubParties_def stubKey_def emptyCore_def Let_def)
  have "sign (stubParties True) (stubSession ''env-1'') ''0xA1'' ''msg'' (Some ''Q'') ?c =
     (Inl PasswordMismatch, ?c)"
    using sign_checks_in_order
      [where ps = "stubParties True" and session = "stubSession ''env-1''" and address = "''0xA1''"
         and message = "''msg''" and password = "Some ''Q''" and c = ?c
         and ps0 = "stubParties True" and session0 = "stubSession ''env-1''" and scheme = TWO_OF_TWO
         and P = "''P''" and backupEnabled = True and c0 = emptyCore and account = ?account
         and report = None]
      cr ok
    by simp
  then show ?thesis using cr cer by simp
qed

text \<open>
  C4. When the key-generation ceremony of \<^verbatim>\<open>createAccount\<close> succeeds with a fresh
  address and the backup upload fails, \<^verbatim>\<open>createAccount\<close> reports
  \<^verbatim>\<open>BackupFailed\<close> together with the account; the Share Store gains exactly one
  ShareRecord, the account's, with \<open>backedUp\<close> false; and a later \<^verbatim>\<open>sign\<close> for
  that account, under a session that passes precondition (a) and with the password of
  the creation, returns the signature of the ceremony with the counter-party.
\<close>

theorem backup_failure_not_fatal:
  assumes "dkg ps session scheme = Some k"
    and "map_of (shareStore c) (dkg_accountAddress k) = None"
    and "\<not> upload ps (dkg_walletId k) (encryptShare ps session (dkg_remoteShare k))"
  shows "fst (createAccount ps session scheme password True c) =
           Created \<lparr>wa_accountAddress = dkg_accountAddress k, wa_walletId = dkg_walletId k,
                    wa_publicKeyHex = dkg_publicKeyHex k, thresholdScheme = scheme,
                    encryptionPassword = password\<rparr> (Some BackupFailed) \<and>
         shareStore (snd (createAccount ps session scheme password True c)) =
           (dkg_accountAddress k,
            \<lparr>sr_walletId = dkg_walletId k, shareMaterial = dkg_localShare k, backedUp = False\<rparr>)
           # shareStore c \<and>
         length (shareStore (snd (createAccount ps session scheme password True c))) =
           Suc (length (shareStore c)) \<and>
         (\<forall>ps' session' message sg.
            sessionOk ps' session' (dkg_accountAddress k) \<and>
            signingCeremony ps'
              \<lparr>sr_walletId = dkg_walletId k, shareMaterial = dkg_localShare k, backedUp = False\<rparr>
              message = Inr sg \<longrightarrow>
            fst (sign ps' session' (dkg_accountAddress k) message password
                   (snd (createAccount ps session scheme password True c))) = Inr sg)"
  using assms
  by (auto simp: createAccount_def sign_def passwordRejected_def Let_def split: option.splits)

theorem backup_failure_not_fatal_witness:
  "fst (createAccount (stubParties False) (stubSession ''env-1'') TWO_OF_TWO (Some ''P'') True emptyCore) =
     Created \<lparr>wa_accountAddress = ''0xA1'', wa_walletId = ''w-1'', wa_publicKeyHex = ''0x04ab'',
              thresholdScheme = TWO_OF_TWO, encryptionPassword = Some ''P''\<rparr> (Some BackupFailed) \<and>
   shareStore (snd (createAccount (stubParties False) (stubSession ''env-1'') TWO_OF_TWO (Some ''P'') True emptyCore)) =
     [(''0xA1'', \<lparr>sr_walletId = ''w-1'', shareMaterial = ''share-1'', backedUp = False\<rparr>)] \<and>
   fst (sign (stubParties False) (stubSession ''env-1'') ''0xA1'' ''msg'' (Some ''P'')
          (snd (createAccount (stubParties False) (stubSession ''env-1'') TWO_OF_TWO (Some ''P'') True emptyCore))) =
     Inr ''sig:msg''"
proof -
  have h1: "dkg (stubParties False) (stubSession ''env-1'') TWO_OF_TWO = Some stubKey"
    by (simp add: stubParties_def)
  have h2: "map_of (shareStore emptyCore) (dkg_accountAddress stubKey) = None"
    by (simp add: emptyCore_def)
  have h3: "\<not> upload (stubParties False) (dkg_walletId stubKey)
               (encryptShare (stubParties False) (stubSession ''env-1'') (dkg_remoteShare stubKey))"
    by (simp add: stubParties_def)
  have ok: "sessionOk (stubParties False) (stubSession ''env-1'') (dkg_accountAddress stubKey)"
    by (simp add: stubParties_def stubSession_def)
  have sg: "signingCeremony (stubParties False)
              \<lparr>sr_walletId = dkg_walletId stubKey, shareMaterial = dkg_localShare stubKey,
               backedUp = False\<rparr> ''msg'' = Inr ''sig:msg''"
    by (simp add: stubParties_def)
  note t = backup_failure_not_fatal[OF h1 h2 h3, of "Some ''P''"]
  from t have "fst (sign (stubParties False) (stubSession ''env-1'') (dkg_accountAddress stubKey) ''msg'' (Some ''P'')
          (snd (createAccount (stubParties False) (stubSession ''env-1'') TWO_OF_TWO (Some ''P'') True emptyCore))) =
     Inr ''sig:msg''"
    using ok sg by blast
  then show ?thesis using t by (simp add: stubKey_def emptyCore_def)
qed

end
